theory Spec2Isabelle
  imports Complex_Main
begin

section \<open>Strings\<close>

text \<open>
  A Python \<open>str\<close> is modelled as a \<open>string\<close> whose characters are the code points
  0..255.  On this range the character classes of \<open>re\<close> and of the \<open>str\<close> methods are
  the ones below: \<open>\d\<close> is the ten ASCII digits, \<open>\s\<close>, \<open>str.strip()\<close> and
  \<open>str.split()\<close> share one whitespace set, and case-insensitive matching of an ASCII
  letter only accepts its two ASCII cases.
\<close>

definition is_digit :: "char \<Rightarrow> bool" where
  "is_digit c \<longleftrightarrow> c \<in> set ''0123456789''"

definition is_space :: "char \<Rightarrow> bool" where
  "is_space c \<longleftrightarrow> c \<in> set [CHR 0x09, CHR 0x0A, CHR 0x0B, CHR 0x0C, CHR 0x0D,
     CHR 0x1C, CHR 0x1D, CHR 0x1E, CHR 0x1F, CHR 0x20, CHR 0x85, CHR 0xA0]"

definition is_upper :: "char \<Rightarrow> bool" where
  "is_upper c \<longleftrightarrow> c \<in> set ''ABCDEFGHIJKLMNOPQRSTUVWXYZ''"

definition is_lower :: "char \<Rightarrow> bool" where
  "is_lower c \<longleftrightarrow> c \<in> set ''abcdefghijklmnopqrstuvwxyz''"

text \<open>The class \<open>[a-zA-Z]\<close>.\<close>

definition is_alpha :: "char \<Rightarrow> bool" where
  "is_alpha c \<longleftrightarrow> is_lower c \<or> is_upper c"

text \<open>\<open>str.lower()\<close> on one character: the ASCII capitals and the capitals of the
  upper half of Latin-1 (0xC0..0xDE without the multiplication sign 0xD7) have a lower
  case, 32 code points up.\<close>

definition upper_chars :: "char list" where
  "upper_chars = ''ABCDEFGHIJKLMNOPQRSTUVWXYZ'' @
     [CHR 0xC0, CHR 0xC1, CHR 0xC2, CHR 0xC3, CHR 0xC4, CHR 0xC5, CHR 0xC6, CHR 0xC7,
      CHR 0xC8, CHR 0xC9, CHR 0xCA, CHR 0xCB, CHR 0xCC, CHR 0xCD, CHR 0xCE, CHR 0xCF,
      CHR 0xD0, CHR 0xD1, CHR 0xD2, CHR 0xD3, CHR 0xD4, CHR 0xD5, CHR 0xD6, CHR 0xD8,
      CHR 0xD9, CHR 0xDA, CHR 0xDB, CHR 0xDC, CHR 0xDD, CHR 0xDE]"

definition lower_chars :: "char list" where
  "lower_chars = ''abcdefghijklmnopqrstuvwxyz'' @
     [CHR 0xE0, CHR 0xE1, CHR 0xE2, CHR 0xE3, CHR 0xE4, CHR 0xE5, CHR 0xE6, CHR 0xE7,
      CHR 0xE8, CHR 0xE9, CHR 0xEA, CHR 0xEB, CHR 0xEC, CHR 0xED, CHR 0xEE, CHR 0xEF,
      CHR 0xF0, CHR 0xF1, CHR 0xF2, CHR 0xF3, CHR 0xF4, CHR 0xF5, CHR 0xF6, CHR 0xF8,
      CHR 0xF9, CHR 0xFA, CHR 0xFB, CHR 0xFC, CHR 0xFD, CHR 0xFE]"

definition lower_char :: "char \<Rightarrow> char" where
  "lower_char c = (case map_of (zip upper_chars lower_chars) c of None \<Rightarrow> c | Some d \<Rightarrow> d)"

definition lower :: "string \<Rightarrow> string" where
  "lower s = map lower_char s"

definition lstrip :: "string \<Rightarrow> string" where
  "lstrip s = dropWhile is_space s"

definition rstrip :: "string \<Rightarrow> string" where
  "rstrip s = rev (dropWhile is_space (rev s))"

definition strip :: "string \<Rightarrow> string" where
  "strip s = rstrip (lstrip s)"

text \<open>\<open>s.rstrip(chars)\<close>: drop trailing characters that occur in \<open>chars\<close>.\<close>

definition rstrip_chars :: "string \<Rightarrow> string \<Rightarrow> string" where
  "rstrip_chars chars s = rev (dropWhile (\<lambda>c. c \<in> set chars) (rev s))"

text \<open>\<open>s.split()\<close>: the maximal runs of non-whitespace characters; \<open>cur\<close> is the run
  being read.\<close>

fun split_from :: "string \<Rightarrow> string \<Rightarrow> string list" where
  "split_from cur [] = (if cur = [] then [] else [cur])"
| "split_from cur (c # cs) =
     (if is_space c then (if cur = [] then split_from [] cs else cur # split_from [] cs)
      else split_from (cur @ [c]) cs)"

definition split :: "string \<Rightarrow> string list" where
  "split s = split_from [] s"

text \<open>\<open>sep.join(xs)\<close>.\<close>

fun join :: "string \<Rightarrow> string list \<Rightarrow> string" where
  "join sep [] = []"
| "join sep [x] = x"
| "join sep (x # y # ys) = x @ sep @ join sep (y # ys)"

section \<open>The regular expressions of the module\<close>

text \<open>
  Each pattern of the source is a sequence of greedy character-class runs and literals in
  which a run can never give a character back to what follows it (the next item never
  accepts a character of the run), so backtracking finds nothing that the greedy reading
  misses and a match at a position is computed by one left-to-right pass.  A matcher takes
  the text at the position tried and returns what the match captures together with the
  text after the match.
\<close>

text \<open>The group \<open>(\d+(?:\.\d+)?)\<close>.\<close>

definition match_number :: "string \<Rightarrow> (string \<times> string) option" where
  "match_number s =
     (let d1 = takeWhile is_digit s; r1 = dropWhile is_digit s in
      if d1 = [] then None
      else (case r1 of
              c # r2 \<Rightarrow>
                (let d2 = takeWhile is_digit r2; r3 = dropWhile is_digit r2 in
                 if c = CHR ''.'' \<and> d2 \<noteq> [] then Some (d1 @ c # d2, r3) else Some (d1, r1))
            | [] \<Rightarrow> Some (d1, r1)))"

text \<open>A literal word under \<open>re.IGNORECASE\<close>: returns the text after the word.\<close>

fun match_literal_ci :: "string \<Rightarrow> string \<Rightarrow> string option" where
  "match_literal_ci [] s = Some s"
| "match_literal_ci (w # ws) [] = None"
| "match_literal_ci (w # ws) (c # cs) =
     (if lower_char c = lower_char w then match_literal_ci ws cs else None)"

text \<open>\<open>(\d+(?:\.\d+)?)\s+word\<close> with \<open>re.IGNORECASE\<close>.\<close>

definition match_word :: "string \<Rightarrow> string \<Rightarrow> (string \<times> string) option" where
  "match_word word s =
     (case match_number s of
        None \<Rightarrow> None
      | Some (g, r) \<Rightarrow>
          (if takeWhile is_space r = [] then None
           else (case match_literal_ci word (dropWhile is_space r) of
                   None \<Rightarrow> None
                 | Some rest \<Rightarrow> Some (g, rest))))"

text \<open>\<open>(\d+(?:\.\d+)?)\s*X(?![a-zA-Z])\<close> for a capital letter \<open>X\<close>, case-sensitive.\<close>

definition match_suffix :: "char \<Rightarrow> string \<Rightarrow> (string \<times> string) option" where
  "match_suffix X s =
     (case match_number s of
        None \<Rightarrow> None
      | Some (g, r) \<Rightarrow>
          (case dropWhile is_space r of
             [] \<Rightarrow> None
           | c # rest \<Rightarrow>
               (if c = X \<and> (case rest of [] \<Rightarrow> True | a # _ \<Rightarrow> \<not> is_alpha a)
                then Some (g, rest) else None)))"

text \<open>
  \<open>pattern.sub(repl, s)\<close> for a template \<open>\1\<close> followed by a fixed text: the string is
  scanned from the left, a match is replaced and the scan goes on behind it, any other
  character is copied.  (The patterns here never match the empty string; a matcher that
  consumed nothing is treated as not matching.)
\<close>

fun re_sub :: "(string \<Rightarrow> (string \<times> string) option) \<Rightarrow> string \<Rightarrow> string \<Rightarrow> string" where
  "re_sub m repl [] = []"
| "re_sub m repl (c # cs) =
     (case m (c # cs) of
        None \<Rightarrow> c # re_sub m repl cs
      | Some (g, rest) \<Rightarrow>
          (if length rest \<le> length cs then g @ repl @ re_sub m repl rest
           else c # re_sub m repl cs))"

text \<open>\<open>re.search\<close>: the leftmost position at which the pattern matches, with what it
  captures there.\<close>

fun re_search :: "(string \<Rightarrow> 'a option) \<Rightarrow> string \<Rightarrow> (nat \<times> 'a) option" where
  "re_search m [] = map_option (Pair 0) (m [])"
| "re_search m (c # cs) =
     (case m (c # cs) of
        Some g \<Rightarrow> Some (0, g)
      | None \<Rightarrow> map_option (\<lambda>(i, g). (Suc i, g)) (re_search m cs))"

text \<open>\<open>/\s*([a-zA-Z]+)\s*$\<close>: returns group 1.\<close>

definition match_time_divisor :: "string \<Rightarrow> string option" where
  "match_time_divisor s =
     (case s of
        [] \<Rightarrow> None
      | c # r \<Rightarrow>
          (let r1 = dropWhile is_space r;
               word = takeWhile is_alpha r1;
               r2 = dropWhile is_alpha r1
           in if c = CHR ''/'' \<and> word \<noteq> [] \<and> dropWhile is_space r2 = [] then Some word
              else None))"

section \<open>Preprocessing\<close>

datatype byte_unit = Byte | Kilobyte | Megabyte | Gigabyte | Terabyte | Petabyte

datatype time_unit = Second | Minute | Hour | Day | Month | Year

definition WORD_MULTIPLIERS :: "(string \<times> string) list" where
  "WORD_MULTIPLIERS =
     [(''trillion'', '' * 1e12''), (''billion'', '' * 1e9''),
      (''million'', '' * 1e6''), (''thousand'', '' * 1e3'')]"

definition SUFFIX_MULTIPLIERS :: "(char \<times> string) list" where
  "SUFFIX_MULTIPLIERS =
     [(CHR ''T'', ''e12''), (CHR ''B'', ''e9''), (CHR ''M'', ''e6''), (CHR ''K'', ''e3'')]"

definition BYTE_UNITS :: "(string \<times> byte_unit) list" where
  "BYTE_UNITS =
     [(''bytes'', Byte), (''byte'', Byte),
      (''kb'', Kilobyte), (''kilobyte'', Kilobyte), (''kilobytes'', Kilobyte),
      (''mb'', Megabyte), (''megabyte'', Megabyte), (''megabytes'', Megabyte),
      (''gb'', Gigabyte), (''gigabyte'', Gigabyte), (''gigabytes'', Gigabyte),
      (''tb'', Terabyte), (''terabyte'', Terabyte), (''terabytes'', Terabyte),
      (''pb'', Petabyte), (''petabyte'', Petabyte), (''petabytes'', Petabyte)]"

definition TIME_UNITS :: "(string \<times> time_unit) list" where
  "TIME_UNITS =
     [(''second'', Second), (''seconds'', Second), (''s'', Second),
      (''minute'', Minute), (''minutes'', Minute), (''min'', Minute),
      (''hour'', Hour), (''hours'', Hour), (''hr'', Hour),
      (''day'', Day), (''days'', Day),
      (''month'', Month), (''months'', Month),
      (''year'', Year), (''years'', Year)]"

text \<open>The rate dropdown; the entry \<open>"none": None\<close> and a missing key both give \<open>None\<close>
  under \<open>_RATE_UNITS.get\<close>.\<close>

definition RATE_UNITS :: "(string \<times> time_unit) list" where
  "RATE_UNITS =
     [(''/s'', Second), (''/min'', Minute), (''/hour'', Hour),
      (''/day'', Day), (''/month'', Month), (''/year'', Year)]"

definition sub_words :: "string \<Rightarrow> string" where
  "sub_words s = fold (\<lambda>(word, repl) t. re_sub (match_word word) repl t) WORD_MULTIPLIERS s"

definition sub_suffixes :: "string \<Rightarrow> string" where
  "sub_suffixes s = fold (\<lambda>(X, repl) t. re_sub (match_suffix X) repl t) SUFFIX_MULTIPLIERS s"

definition preprocess_scale :: "string \<Rightarrow> string" where
  "preprocess_scale expr = sub_suffixes (sub_words (strip expr))"

definition parse_units :: "string \<Rightarrow> string \<times> byte_unit option \<times> time_unit option" where
  "parse_units expr =
     (let (math1, time_unit) =
            (case re_search match_time_divisor expr of
               None \<Rightarrow> (expr, None)
             | Some (start, word) \<Rightarrow>
                 (case map_of TIME_UNITS (lower word) of
                    None \<Rightarrow> (expr, None)
                  | Some u \<Rightarrow> (strip (take start expr), Some u)));
          tokens = split (strip math1)
      in if tokens = [] then (math1, None, time_unit)
         else (case map_of BYTE_UNITS (lower (last tokens)) of
                 None \<Rightarrow> (math1, None, time_unit)
               | Some u \<Rightarrow> (rstrip_chars '' *'' (join '' '' (butlast tokens)), Some u, time_unit)))"

section \<open>Python numbers\<close>

text \<open>
  A Python \<open>float\<close> is an IEEE 754 binary64 value.  A finite value is carried by the
  rational it denotes; \<open>Finite 0\<close> is \<open>+0.0\<close> and \<open>NegZero\<close> is \<open>-0.0\<close>.  Every
  operation below computes the exact rational result and rounds it once to the nearest
  double, ties to even, which is what IEEE 754 prescribes for \<open>+ - * /\<close> and what
  CPython does for literals, \<open>float(int)\<close> and \<open>int / int\<close>.
\<close>

datatype pyfloat = Finite rat | NegZero | PInf | NInf | NaN

datatype exc =
  SyntaxError | NameError | TypeError | AttributeError | ZeroDivisionError | OverflowError
  | DimensionalityError | Unmodelled

text \<open>
  \<open>DimensionalityError\<close> is pint's.  \<open>Unmodelled\<close> is not a Python exception: it marks the one operation whose result the
  language leaves to the C library, \<open>**\<close> with a float operand or a negative exponent
  (\<open>pow\<close> of libm, or complex arithmetic).  The interpreter's resource limits (recursion
  depth while compiling, memory, the digit limit of integer literals) are not modelled
  either.
\<close>

datatype error = ValueError string | Exception exc

text \<open>\<open>int.bit_length\<close> on a non-negative \<open>int\<close>.\<close>

function bit_length :: "int \<Rightarrow> nat" where
  "bit_length n = (if n \<le> 0 then 0 else Suc (bit_length (n div 2)))"
  by pat_completeness auto
termination
  by (relation "measure nat") auto

declare bit_length.simps [simp del]

text \<open>\<open>floor_log2 a\<close> is the \<open>e\<close> with \<open>2^e \<le> a < 2^(e+1)\<close>, for \<open>a > 0\<close>.\<close>

definition floor_log2 :: "rat \<Rightarrow> int" where
  "floor_log2 a =
     (if 1 \<le> a then int (bit_length \<lfloor>a\<rfloor>) - 1
      else - int (bit_length (\<lceil>1 / a\<rceil> - 1)))"

definition pow2 :: "int \<Rightarrow> rat" where
  "pow2 e = (if 0 \<le> e then 2 ^ nat e else 1 / 2 ^ nat (- e))"

definition round_half_even :: "rat \<Rightarrow> int" where
  "round_half_even q =
     (let f = \<lfloor>q\<rfloor>; d = q - of_int f in
      if d < 1 / 2 then f else if 1 / 2 < d then f + 1 else if even f then f else f + 1)"

text \<open>Round the magnitude \<open>a \<ge> 0\<close> with the sign \<open>neg\<close> to a double: 53 significant
  bits, the exponent of the unit in the last place not below \<open>-1074\<close> (subnormals), and
  overflow to infinity from \<open>2^1024\<close> on.\<close>

definition round_double :: "bool \<Rightarrow> rat \<Rightarrow> pyfloat" where
  "round_double neg a =
     (if a = 0 then (if neg then NegZero else Finite 0)
      else
        (let e = max (floor_log2 a) (- 1022);
             ulp = pow2 (e - 52);
             r = of_int (round_half_even (a / ulp)) * ulp
         in if pow2 1024 \<le> r then (if neg then NInf else PInf)
            else if r = 0 then (if neg then NegZero else Finite 0)
            else Finite (if neg then - r else r)))"

definition to_double :: "rat \<Rightarrow> pyfloat" where
  "to_double q = round_double (q < 0) \<bar>q\<bar>"

definition is_nan :: "pyfloat \<Rightarrow> bool" where
  "is_nan x \<longleftrightarrow> x = NaN"

definition is_inf :: "pyfloat \<Rightarrow> bool" where
  "is_inf x \<longleftrightarrow> x = PInf \<or> x = NInf"

definition is_zero :: "pyfloat \<Rightarrow> bool" where
  "is_zero x \<longleftrightarrow> x = Finite 0 \<or> x = NegZero"

text \<open>The sign bit.\<close>

fun is_neg :: "pyfloat \<Rightarrow> bool" where
  "is_neg (Finite q) = (q < 0)"
| "is_neg NegZero = True"
| "is_neg NInf = True"
| "is_neg PInf = False"
| "is_neg NaN = False"

text \<open>The value of a finite float (0 for the others).\<close>

fun fval :: "pyfloat \<Rightarrow> rat" where
  "fval (Finite q) = q"
| "fval _ = 0"

fun fneg :: "pyfloat \<Rightarrow> pyfloat" where
  "fneg (Finite q) = (if q = 0 then NegZero else Finite (- q))"
| "fneg NegZero = Finite 0"
| "fneg PInf = NInf"
| "fneg NInf = PInf"
| "fneg NaN = NaN"

fun fabs :: "pyfloat \<Rightarrow> pyfloat" where
  "fabs (Finite q) = Finite \<bar>q\<bar>"
| "fabs NegZero = Finite 0"
| "fabs PInf = PInf"
| "fabs NInf = PInf"
| "fabs NaN = NaN"

definition signed_inf :: "bool \<Rightarrow> pyfloat" where
  "signed_inf neg = (if neg then NInf else PInf)"

definition fadd :: "pyfloat \<Rightarrow> pyfloat \<Rightarrow> pyfloat" where
  "fadd x y =
     (if is_nan x \<or> is_nan y then NaN
      else if is_inf x then (if is_inf y \<and> y \<noteq> x then NaN else x)
      else if is_inf y then y
      else (let q = fval x + fval y in
            if q = 0 then (if is_neg x \<and> is_neg y then NegZero else Finite 0)
            else to_double q))"

definition fsub :: "pyfloat \<Rightarrow> pyfloat \<Rightarrow> pyfloat" where
  "fsub x y = fadd x (fneg y)"

definition fmul :: "pyfloat \<Rightarrow> pyfloat \<Rightarrow> pyfloat" where
  "fmul x y =
     (if is_nan x \<or> is_nan y then NaN
      else if is_inf x \<or> is_inf y then
        (if is_zero x \<or> is_zero y then NaN else signed_inf (is_neg x \<noteq> is_neg y))
      else round_double (is_neg x \<noteq> is_neg y) (\<bar>fval x\<bar> * \<bar>fval y\<bar>))"

text \<open>IEEE division by a divisor that is not zero.\<close>

definition fdiv :: "pyfloat \<Rightarrow> pyfloat \<Rightarrow> pyfloat" where
  "fdiv x y =
     (if is_nan x \<or> is_nan y then NaN
      else if is_inf x then (if is_inf y then NaN else signed_inf (is_neg x \<noteq> is_neg y))
      else if is_inf y then round_double (is_neg x \<noteq> is_neg y) 0
      else round_double (is_neg x \<noteq> is_neg y) (\<bar>fval x\<bar> / \<bar>fval y\<bar>))"

text \<open>Comparison of floats: \<open>rank\<close> places the infinities around the finite values; a
  NaN compares false with everything.\<close>

fun rank :: "pyfloat \<Rightarrow> int" where
  "rank PInf = 1"
| "rank NInf = - 1"
| "rank _ = 0"

definition flt :: "pyfloat \<Rightarrow> pyfloat \<Rightarrow> bool" where
  "flt x y \<longleftrightarrow> \<not> is_nan x \<and> \<not> is_nan y \<and>
     (rank x < rank y \<or> (rank x = rank y \<and> fval x < fval y))"

definition feq :: "pyfloat \<Rightarrow> pyfloat \<Rightarrow> bool" where
  "feq x y \<longleftrightarrow> \<not> is_nan x \<and> \<not> is_nan y \<and> rank x = rank y \<and> fval x = fval y"

definition fge :: "pyfloat \<Rightarrow> pyfloat \<Rightarrow> bool" where
  "fge x y \<longleftrightarrow> flt y x \<or> feq x y"

text \<open>Comparison of a float with an \<open>int\<close>, which Python decides on the exact values.\<close>

definition feq_int :: "pyfloat \<Rightarrow> int \<Rightarrow> bool" where
  "feq_int x n \<longleftrightarrow> \<not> is_nan x \<and> \<not> is_inf x \<and> fval x = of_int n"

text \<open>\<open>float(n)\<close> for an \<open>int\<close>.\<close>

definition float_of_int :: "int \<Rightarrow> exc + pyfloat" where
  "float_of_int n =
     (let r = to_double (of_int n) in if is_inf r then Inl OverflowError else Inr r)"

text \<open>\<open>a / b\<close> on two \<open>int\<close>s: the correctly rounded quotient, \<open>-0.0\<close> for a zero
  quotient of a negative divisor.\<close>

definition int_true_div :: "int \<Rightarrow> int \<Rightarrow> exc + pyfloat" where
  "int_true_div a b =
     (if b = 0 then Inl ZeroDivisionError
      else (let r = round_double ((a < 0) \<noteq> (b < 0)) (\<bar>of_int a\<bar> / \<bar>of_int b\<bar>) in
            if is_inf r then Inl OverflowError else Inr r))"

text \<open>C's \<open>floor\<close> and \<open>fmod\<close> (exact), and \<open>float // float\<close> as \<open>float_floor_div\<close>
  of CPython computes it from them.\<close>

fun ffloor :: "pyfloat \<Rightarrow> pyfloat" where
  "ffloor (Finite q) = Finite (of_int \<lfloor>q\<rfloor>)"
| "ffloor x = x"

definition fmod :: "pyfloat \<Rightarrow> pyfloat \<Rightarrow> pyfloat" where
  "fmod x y =
     (if is_nan x \<or> is_nan y \<or> is_inf x \<or> is_zero y then NaN
      else if is_inf y then x
      else (let a = \<bar>fval x\<bar>; b = \<bar>fval y\<bar>; r = a - of_int \<lfloor>a / b\<rfloor> * b in
            if r = 0 then (if is_neg x then NegZero else Finite 0)
            else Finite (if is_neg x then - r else r)))"

definition float_floor_div :: "pyfloat \<Rightarrow> pyfloat \<Rightarrow> exc + pyfloat" where
  "float_floor_div vx wx =
     (if is_zero wx then Inl ZeroDivisionError
      else
        (let md = fmod vx wx;
             div0 = fdiv (fsub vx md) wx;
             dv = (if \<not> is_zero md \<and> (flt wx (Finite 0) \<noteq> flt md (Finite 0))
                   then fsub div0 (Finite 1) else div0)
         in if is_zero dv then Inr (round_double (is_neg (fdiv vx wx)) 0)
            else (let fl = ffloor dv in
                  Inr (if flt (Finite (1 / 2)) (fsub dv fl) then fadd fl (Finite 1) else fl))))"

section \<open>The expression evaluator \<open>eval\<close> on the residual text\<close>

text \<open>
  \<open>_safe_eval\<close> hands the stripped text to Python's \<open>eval\<close> with no names bound.  The
  text only holds digits, whitespace and \<open>. + - * / ( ) e E\<close>, so the Python it can
  spell is small: integer and float literals, names made of \<open>e\<close>, \<open>E\<close> and digits
  (never bound), the operators \<open>+ - * / // **\<close>, parentheses, the empty tuple
  \<open>()\<close>, the constant \<open>...\<close>, attribute access and calls.  The model below is a
  tokenizer, a parser for that part of the expression grammar and an evaluator.
\<close>

datatype pyval = PyInt int | PyFloat pyfloat | PyTuple | PyEllipsis

datatype token =
  NUMBER pyval | NAME string | PLUS | MINUS | STAR | SLASH | DOUBLESTAR | DOUBLESLASH
  | LPAR | RPAR | DOT | ELLIPSIS

definition digit_value :: "char \<Rightarrow> int" where
  "digit_value c = int (length (takeWhile (\<lambda>d. d \<noteq> c) ''0123456789''))"

definition digits_value :: "string \<Rightarrow> int" where
  "digits_value ds = foldl (\<lambda>a c. 10 * a + digit_value c) 0 ds"

definition pow10 :: "int \<Rightarrow> rat" where
  "pow10 e = (if 0 \<le> e then 10 ^ nat e else 1 / 10 ^ nat (- e))"

text \<open>The exponent of a float literal at the head of the text: \<open>e\<close> or \<open>E\<close>, an
  optional sign and at least one digit; returns the exponent and the text behind it.  An
  \<open>e\<close> that no digit follows does not belong to the number.\<close>

definition lex_exponent :: "string \<Rightarrow> (int \<times> string) option" where
  "lex_exponent s =
     (case s of
        [] \<Rightarrow> None
      | c # t \<Rightarrow>
          if c \<noteq> CHR ''e'' \<and> c \<noteq> CHR ''E'' then None
          else (case t of
                  [] \<Rightarrow> None
                | d # u \<Rightarrow>
                    if is_digit d
                      then Some (digits_value (takeWhile is_digit t), dropWhile is_digit t)
                    else if (d = CHR ''+'' \<or> d = CHR ''-'') \<and> takeWhile is_digit u \<noteq> []
                      then Some ((if d = CHR ''-'' then - 1 else 1)
                                   * digits_value (takeWhile is_digit u),
                                 dropWhile is_digit u)
                    else None))"

text \<open>A number at the head of the text (which starts with a digit, or with a point and
  a digit).  With a fraction or an exponent it is a float literal, rounded from its exact
  decimal value; otherwise an integer literal, which must not have a leading zero unless
  it is all zeros.  \<open>None\<close> is the syntax error.\<close>

definition lex_number :: "string \<Rightarrow> (pyval \<times> string) option" where
  "lex_number s =
     (let ip = takeWhile is_digit s;
          r1 = dropWhile is_digit s;
          has_frac = (r1 \<noteq> [] \<and> hd r1 = CHR ''.'');
          fp = (if has_frac then takeWhile is_digit (tl r1) else []);
          r2 = (if has_frac then dropWhile is_digit (tl r1) else r1)
      in case lex_exponent r2 of
           Some (ex, r3) \<Rightarrow>
             Some (PyFloat (to_double (of_int (digits_value (ip @ fp))
                                        * pow10 (ex - int (length fp)))), r3)
         | None \<Rightarrow>
             if has_frac
               then Some (PyFloat (to_double (of_int (digits_value (ip @ fp))
                                              * pow10 (- int (length fp)))), r2)
             else if 1 < length ip \<and> hd ip = CHR ''0'' \<and> digits_value ip \<noteq> 0 then None
             else Some (PyInt (digits_value ip), r2))"

text \<open>The characters that continue a name of this alphabet.\<close>

definition is_name_char :: "char \<Rightarrow> bool" where
  "is_name_char c \<longleftrightarrow> c = CHR ''e'' \<or> c = CHR ''E'' \<or> is_digit c"

text \<open>
  One step of the tokenizer at the character \<open>c\<close> followed by \<open>cs\<close>; \<open>depth\<close> counts
  the open parentheses.  Blank, tab and form feed separate tokens.  A line break (\<open>\n\<close>,
  or \<open>\r\<close>, which the tokenizer reads as one) is skipped inside parentheses; outside it
  ends the logical line, and since the text is stripped more text follows, which is a
  syntax error.  The other characters \<open>\s\<close> admits (0x0B, 0x1C..0x1F, 0x85, 0xA0) are
  no Python whitespace and are syntax errors too.
\<close>

datatype lex_step = LexError | Skip nat string | Tok token nat string

definition lex_step :: "nat \<Rightarrow> char \<Rightarrow> string \<Rightarrow> lex_step" where
  "lex_step depth c cs =
     (if c = CHR '' '' \<or> c = CHR 0x09 \<or> c = CHR 0x0C then Skip depth cs
      else if c = CHR 0x0A \<or> c = CHR 0x0D then
        (if 0 < depth then Skip depth cs else LexError)
      else if is_digit c \<or> (c = CHR ''.'' \<and> cs \<noteq> [] \<and> is_digit (hd cs)) then
        (case lex_number (c # cs) of
           None \<Rightarrow> LexError
         | Some (v, r) \<Rightarrow> Tok (NUMBER v) depth r)
      else if c = CHR ''e'' \<or> c = CHR ''E'' then
        Tok (NAME (c # takeWhile is_name_char cs)) depth (dropWhile is_name_char cs)
      else if c = CHR ''('' then Tok LPAR (Suc depth) cs
      else if c = CHR '')'' then (if depth = 0 then LexError else Tok RPAR (depth - 1) cs)
      else if c = CHR ''+'' then Tok PLUS depth cs
      else if c = CHR ''-'' then Tok MINUS depth cs
      else if c = CHR ''*'' then
        (if cs \<noteq> [] \<and> hd cs = CHR ''*'' then Tok DOUBLESTAR depth (tl cs)
         else Tok STAR depth cs)
      else if c = CHR ''/'' then
        (if cs \<noteq> [] \<and> hd cs = CHR ''/'' then Tok DOUBLESLASH depth (tl cs)
         else Tok SLASH depth cs)
      else if c = CHR ''.'' then
        (if take 2 cs = ''..'' then Tok ELLIPSIS depth (drop 2 cs) else Tok DOT depth cs)
      else LexError)"

text \<open>The tokenizer: \<open>None\<close> is the syntax error.  (A step never returns more text
  than it was given; a step that did is treated as an error.)\<close>

fun tokenize :: "nat \<Rightarrow> string \<Rightarrow> token list option" where
  "tokenize depth [] = Some []"
| "tokenize depth (c # cs) =
     (case lex_step depth c cs of
        LexError \<Rightarrow> None
      | Skip d r \<Rightarrow> if length r \<le> length cs then tokenize d r else None
      | Tok t d r \<Rightarrow>
          if length r \<le> length cs then map_option ((#) t) (tokenize d r) else None)"

datatype binop = Add | Sub | Mult | Div | FloorDiv | Pow

datatype unop = UAdd | USub

text \<open>The syntax tree.  A call keeps its argument, if it has one; the forms \<open>f(x)\<close>,
  \<open>f(*x)\<close> and \<open>f(**x)\<close> all evaluate \<open>f\<close>, then \<open>x\<close>, and then fail alike.\<close>

datatype expr =
  Const pyval
  | Name string
  | UnaryOp unop expr
  | BinOp expr binop expr
  | Attribute expr string
  | Call expr "expr option"

text \<open>
  The parser follows the expression grammar of Python, cut down to the tokens above:
  \<^verbatim>\<open>
  expr     := term (('+' | '-') term)*
  term     := factor (('*' | '/' | '//') factor)*
  factor   := ('+' | '-') factor | power
  power    := primary ['**' factor]
  primary  := atom ('.' NAME | '(' [['*' | '**'] expr] ')')*
  atom     := NUMBER | NAME | '...' | '(' ')' | '(' expr ')'
  \<close>
  A nonterminal that continues a left operand carries it.  \<open>parse nt ts\<close> returns the
  tree and the tokens left over, \<open>None\<close> on a syntax error.
\<close>

datatype nonterm =
  Expr | SumRest expr | TermRest expr | Factor | Power | Trailers expr | Atom

definition sum_op :: "token \<Rightarrow> binop option" where
  "sum_op t = (if t = PLUS then Some Add else if t = MINUS then Some Sub else None)"

definition term_op :: "token \<Rightarrow> binop option" where
  "term_op t =
     (if t = STAR then Some Mult else if t = SLASH then Some Div
      else if t = DOUBLESLASH then Some FloorDiv else None)"

fun nt_rank :: "nonterm \<Rightarrow> nat" where
  "nt_rank Expr = 4"
| "nt_rank Factor = 3"
| "nt_rank Power = 2"
| "nt_rank _ = 0"

text \<open>(A sub-parse never returns more tokens than it was given; the tests on
  \<open>length\<close> only make that visible to the termination proof.)\<close>

function parse :: "nonterm \<Rightarrow> token list \<Rightarrow> (expr \<times> token list) option" where
  "parse Atom ts =
     (case ts of
        [] \<Rightarrow> None
      | t # r \<Rightarrow>
          (case t of
             NUMBER v \<Rightarrow> Some (Const v, r)
           | NAME n \<Rightarrow> Some (Name n, r)
           | ELLIPSIS \<Rightarrow> Some (Const PyEllipsis, r)
           | LPAR \<Rightarrow>
               if r \<noteq> [] \<and> hd r = RPAR then Some (Const PyTuple, tl r)
               else (case parse Expr r of
                       None \<Rightarrow> None
                     | Some (e, r') \<Rightarrow>
                         if r' \<noteq> [] \<and> hd r' = RPAR then Some (e, tl r') else None)
           | _ \<Rightarrow> None))"
| "parse (Trailers e) ts =
     (case ts of
        [] \<Rightarrow> Some (e, [])
      | t # r \<Rightarrow>
          if t = DOT then
            (case r of
               [] \<Rightarrow> None
             | u # r' \<Rightarrow>
                 (case u of
                    NAME n \<Rightarrow> parse (Trailers (Attribute e n)) r'
                  | _ \<Rightarrow> None))
          else if t = LPAR then
            (if r \<noteq> [] \<and> hd r = RPAR then parse (Trailers (Call e None)) (tl r)
             else (case parse Expr
                          (if r \<noteq> [] \<and> (hd r = STAR \<or> hd r = DOUBLESTAR) then tl r else r) of
                     None \<Rightarrow> None
                   | Some (a, r') \<Rightarrow>
                       if r' \<noteq> [] \<and> hd r' = RPAR \<and> length r' \<le> length r
                         then parse (Trailers (Call e (Some a))) (tl r')
                       else None))
          else Some (e, ts))"
| "parse Power ts =
     (case parse Atom ts of
        None \<Rightarrow> None
      | Some (a, r) \<Rightarrow>
          if length r \<le> length ts then
            (case parse (Trailers a) r of
               None \<Rightarrow> None
             | Some (p, r') \<Rightarrow>
                 if r' \<noteq> [] \<and> hd r' = DOUBLESTAR \<and> length r' \<le> length ts then
                   (case parse Factor (tl r') of
                      None \<Rightarrow> None
                    | Some (x, r'') \<Rightarrow> Some (BinOp p Pow x, r''))
                 else Some (p, r'))
          else None)"
| "parse Factor ts =
     (case ts of
        [] \<Rightarrow> None
      | t # r \<Rightarrow>
          if t = PLUS \<or> t = MINUS then
            (case parse Factor r of
               None \<Rightarrow> None
             | Some (e, r') \<Rightarrow> Some (UnaryOp (if t = PLUS then UAdd else USub) e, r'))
          else parse Power ts)"
| "parse (TermRest l) ts =
     (case ts of
        [] \<Rightarrow> Some (l, [])
      | t # r \<Rightarrow>
          (case term_op t of
             None \<Rightarrow> Some (l, ts)
           | Some op \<Rightarrow>
               (case parse Factor r of
                  None \<Rightarrow> None
                | Some (x, r') \<Rightarrow>
                    if length r' \<le> length r then parse (TermRest (BinOp l op x)) r'
                    else None)))"
| "parse (SumRest l) ts =
     (case ts of
        [] \<Rightarrow> Some (l, [])
      | t # r \<Rightarrow>
          (case sum_op t of
             None \<Rightarrow> Some (l, ts)
           | Some op \<Rightarrow>
               (case parse Factor r of
                  None \<Rightarrow> None
                | Some (x, r') \<Rightarrow>
                    if length r' \<le> length r then
                      (case parse (TermRest x) r' of
                         None \<Rightarrow> None
                       | Some (y, r'') \<Rightarrow>
                           if length r'' \<le> length r then parse (SumRest (BinOp l op y)) r''
                           else None)
                    else None)))"
| "parse Expr ts =
     (case parse Factor ts of
        None \<Rightarrow> None
      | Some (x, r) \<Rightarrow>
          if length r \<le> length ts then
            (case parse (TermRest x) r of
               None \<Rightarrow> None
             | Some (y, r') \<Rightarrow>
                 if length r' \<le> length ts then parse (SumRest y) r' else None)
          else None)"
  by pat_completeness auto
termination
  by (relation "measure (\<lambda>(nt, ts). 5 * length ts + nt_rank nt)")
     (auto simp: neq_Nil_conv)

text \<open>The whole text must be one expression.\<close>

definition py_parse :: "string \<Rightarrow> expr option" where
  "py_parse s =
     (case tokenize 0 s of
        None \<Rightarrow> None
      | Some ts \<Rightarrow>
          (case parse Expr ts of
             None \<Rightarrow> None
           | Some (e, r) \<Rightarrow> if r = [] then Some e else None))"

subsection \<open>Evaluation\<close>

definition py_unary :: "unop \<Rightarrow> pyval \<Rightarrow> exc + pyval" where
  "py_unary op v =
     (case v of
        PyInt n \<Rightarrow> Inr (PyInt (if op = USub then - n else n))
      | PyFloat x \<Rightarrow> Inr (PyFloat (if op = USub then fneg x else x))
      | _ \<Rightarrow> Inl TypeError)"

definition int_binop :: "binop \<Rightarrow> int \<Rightarrow> int \<Rightarrow> exc + pyval" where
  "int_binop op a b =
     (case op of
        Add \<Rightarrow> Inr (PyInt (a + b))
      | Sub \<Rightarrow> Inr (PyInt (a - b))
      | Mult \<Rightarrow> Inr (PyInt (a * b))
      | Div \<Rightarrow> map_sum id PyFloat (int_true_div a b)
      | FloorDiv \<Rightarrow> if b = 0 then Inl ZeroDivisionError else Inr (PyInt (a div b))
      | Pow \<Rightarrow> if 0 \<le> b then Inr (PyInt (a ^ nat b)) else Inl Unmodelled)"

definition float_binop :: "binop \<Rightarrow> pyfloat \<Rightarrow> pyfloat \<Rightarrow> exc + pyval" where
  "float_binop op x y =
     (case op of
        Add \<Rightarrow> Inr (PyFloat (fadd x y))
      | Sub \<Rightarrow> Inr (PyFloat (fsub x y))
      | Mult \<Rightarrow> Inr (PyFloat (fmul x y))
      | Div \<Rightarrow> if is_zero y then Inl ZeroDivisionError else Inr (PyFloat (fdiv x y))
      | FloorDiv \<Rightarrow> map_sum id PyFloat (float_floor_div x y)
      | Pow \<Rightarrow> Inl Unmodelled)"

text \<open>The operand of a float operation as a float: an \<open>int\<close> is converted.\<close>

definition as_float :: "pyval \<Rightarrow> exc + pyfloat" where
  "as_float v =
     (case v of
        PyInt n \<Rightarrow> float_of_int n
      | PyFloat x \<Rightarrow> Inr x
      | _ \<Rightarrow> Inl TypeError)"

text \<open>
  A binary operation on two values.  Two \<open>int\<close>s stay exact; with a float among two
  numbers both become floats (\<open>**\<close> aside, see \<open>Unmodelled\<close>).  The empty tuple can be
  added to itself and repeated by an \<open>int\<close> that fits the index type (64 bits); every
  other use of it, and every use of \<open>...\<close>, is a type error.
\<close>

definition py_binop :: "binop \<Rightarrow> pyval \<Rightarrow> pyval \<Rightarrow> exc + pyval" where
  "py_binop op v w =
     (case (v, w) of
        (PyInt a, PyInt b) \<Rightarrow> int_binop op a b
      | (PyInt a, PyFloat y) \<Rightarrow>
          (if op = Pow then Inl Unmodelled
           else (case float_of_int a of Inl e \<Rightarrow> Inl e | Inr x \<Rightarrow> float_binop op x y))
      | (PyFloat x, PyInt b) \<Rightarrow>
          (if op = Pow then Inl Unmodelled
           else (case float_of_int b of Inl e \<Rightarrow> Inl e | Inr y \<Rightarrow> float_binop op x y))
      | (PyFloat x, PyFloat y) \<Rightarrow> float_binop op x y
      | (PyTuple, PyTuple) \<Rightarrow> if op = Add then Inr PyTuple else Inl TypeError
      | (PyTuple, PyInt n) \<Rightarrow>
          (if op = Mult
           then (if - (2 ^ 63) \<le> n \<and> n < 2 ^ 63 then Inr PyTuple else Inl OverflowError)
           else Inl TypeError)
      | (PyInt n, PyTuple) \<Rightarrow>
          (if op = Mult
           then (if - (2 ^ 63) \<le> n \<and> n < 2 ^ 63 then Inr PyTuple else Inl OverflowError)
           else Inl TypeError)
      | _ \<Rightarrow> Inl TypeError)"

text \<open>Evaluation runs left to right and stops at the first exception.  No name is bound,
  no value has an attribute spelled with \<open>e\<close>, \<open>E\<close> and digits, and no value can be
  called.\<close>

fun eval_expr :: "expr \<Rightarrow> exc + pyval" where
  "eval_expr (Const v) = Inr v"
| "eval_expr (Name n) = Inl NameError"
| "eval_expr (UnaryOp op e) =
     (case eval_expr e of Inl x \<Rightarrow> Inl x | Inr v \<Rightarrow> py_unary op v)"
| "eval_expr (BinOp l op r) =
     (case eval_expr l of
        Inl x \<Rightarrow> Inl x
      | Inr v \<Rightarrow> (case eval_expr r of Inl x \<Rightarrow> Inl x | Inr w \<Rightarrow> py_binop op v w))"
| "eval_expr (Attribute e n) =
     (case eval_expr e of Inl x \<Rightarrow> Inl x | Inr v \<Rightarrow> Inl AttributeError)"
| "eval_expr (Call f None) =
     (case eval_expr f of Inl x \<Rightarrow> Inl x | Inr v \<Rightarrow> Inl TypeError)"
| "eval_expr (Call f (Some a)) =
     (case eval_expr f of
        Inl x \<Rightarrow> Inl x
      | Inr v \<Rightarrow> (case eval_expr a of Inl x \<Rightarrow> Inl x | Inr w \<Rightarrow> Inl TypeError))"

text \<open>\<open>eval(cleaned, {"__builtins__": {}}, {})\<close>.\<close>

definition py_eval :: "string \<Rightarrow> exc + pyval" where
  "py_eval s = (case py_parse s of None \<Rightarrow> Inl SyntaxError | Some e \<Rightarrow> eval_expr e)"

text \<open>\<open>float(v)\<close>.\<close>

definition py_float :: "pyval \<Rightarrow> exc + pyfloat" where
  "py_float v = as_float v"

subsection \<open>\<open>_safe_eval\<close>\<close>

text \<open>The character class of \<open>_SAFE_MATH_RE\<close>, \<open>[\d\s\.\+\-\*\/\(\)eE]\<close>.\<close>

definition is_safe_char :: "char \<Rightarrow> bool" where
  "is_safe_char c \<longleftrightarrow> is_digit c \<or> is_space c \<or> c \<in> set ''.+-*/()eE''"

definition safe_eval :: "string \<Rightarrow> error + pyfloat" where
  "safe_eval math_str =
     (let cleaned = strip math_str in
      if cleaned = [] then Inl (ValueError ''Empty expression'')
      else if \<not> list_all is_safe_char cleaned
        then Inl (ValueError (''Invalid characters in expression: '' @ cleaned))
      else (case py_eval cleaned of
              Inl e \<Rightarrow> Inl (Exception e)
            | Inr v \<Rightarrow>
                (case py_float v of Inl e \<Rightarrow> Inl (Exception e) | Inr x \<Rightarrow> Inr x)))"

section \<open>Formatting\<close>

text \<open>\<open>str(n)\<close> for an \<open>int\<close>.\<close>

definition digit_char :: "int \<Rightarrow> char" where
  "digit_char d = ''0123456789'' ! nat d"

function digits10 :: "int \<Rightarrow> string" where
  "digits10 n =
     (if n < 10 then [digit_char n] else digits10 (n div 10) @ [digit_char (n mod 10)])"
  by pat_completeness auto
termination
  by (relation "measure nat") auto

declare digits10.simps [simp del]

definition str_int :: "int \<Rightarrow> string" where
  "str_int n = (if n < 0 then CHR ''-'' # digits10 (- n) else digits10 n)"

text \<open>\<open>round(x)\<close>: the nearest \<open>int\<close>, ties to even.\<close>

definition py_round :: "pyfloat \<Rightarrow> error + int" where
  "py_round x =
     (if is_nan x then Inl (ValueError ''cannot convert float NaN to integer'')
      else if is_inf x then Inl (Exception OverflowError)
      else Inr (round_half_even (fval x)))"

text \<open>\<open>round(x, 1)\<close>: the exact value is rounded to one decimal place, ties to even,
  and the double nearest to that decimal is returned, with the sign of \<open>x\<close>.\<close>

definition round_1dp :: "pyfloat \<Rightarrow> pyfloat" where
  "round_1dp x =
     (if is_nan x \<or> is_inf x then x
      else round_double (is_neg x) (of_int (round_half_even (\<bar>fval x\<bar> * 10)) / 10))"

function dec_length :: "int \<Rightarrow> nat" where
  "dec_length n = (if n \<le> 0 then 0 else Suc (dec_length (n div 10)))"
  by pat_completeness auto
termination
  by (relation "measure nat") auto

declare dec_length.simps [simp del]

text \<open>\<open>floor_log10 a\<close> is the \<open>e\<close> with \<open>10^e \<le> a < 10^(e+1)\<close>, for \<open>a > 0\<close>.\<close>

definition floor_log10 :: "rat \<Rightarrow> int" where
  "floor_log10 a =
     (if 1 \<le> a then int (dec_length \<lfloor>a\<rfloor>) - 1
      else - int (dec_length (\<lceil>1 / a\<rceil> - 1)))"

text \<open>
  The format \<open>g\<close> of an f-string (precision 6): six significant digits, rounded from
  the exact value with ties to even; fixed notation when the decimal exponent is in
  \<open>-4 .. 5\<close>, otherwise a mantissa and an exponent of at least two digits; trailing
  zeros and a trailing point are dropped.
\<close>

definition format_g :: "pyfloat \<Rightarrow> string" where
  "format_g x =
     (case x of
        NaN \<Rightarrow> ''nan''
      | PInf \<Rightarrow> ''inf''
      | NInf \<Rightarrow> ''-inf''
      | NegZero \<Rightarrow> ''-0''
      | Finite q \<Rightarrow>
          if q = 0 then ''0''
          else
            (let a = \<bar>q\<bar>;
                 e0 = floor_log10 a;
                 m0 = round_half_even (a / pow10 (e0 - 5));
                 m = (if 10 ^ 6 \<le> m0 then m0 div 10 else m0);
                 e = (if 10 ^ 6 \<le> m0 then e0 + 1 else e0);
                 ds = digits10 m;
                 sign = (if q < 0 then ''-'' else [])
             in if - 4 \<le> e \<and> e < 6 then
                  (let ip = (if 0 \<le> e then take (nat (e + 1)) ds else ''0'');
                       fp = rstrip_chars ''0''
                              (if 0 \<le> e then drop (nat (e + 1)) ds
                               else replicate (nat (- e - 1)) CHR ''0'' @ ds)
                   in sign @ ip @ (if fp = [] then [] else CHR ''.'' # fp))
                else
                  (let fp = rstrip_chars ''0'' (drop 1 ds);
                       ed = digits10 \<bar>e\<bar>
                   in sign @ take 1 ds @ (if fp = [] then [] else CHR ''.'' # fp)
                      @ ''e'' @ (if e < 0 then ''-'' else ''+'')
                      @ (if length ed < 2 then CHR ''0'' # ed else ed))))"

text \<open>\<open>_format_magnitude\<close>.  The \<open>int\<close> \<open>rounded_int\<close> meets the float \<open>value\<close>
  in a subtraction and a division, for which Python converts it to a float.\<close>

definition format_magnitude :: "pyfloat \<Rightarrow> error + string" where
  "format_magnitude v =
     (if feq_int v 0 then Inr ''0''
      else
        (case py_round v of
           Inl e \<Rightarrow> Inl e
         | Inr rounded_int \<Rightarrow>
             (case (float_of_int rounded_int, float_of_int \<bar>rounded_int\<bar>) of
                (Inr ri, Inr ari) \<Rightarrow>
                  (let rounded_1dp = round_1dp v;
                       diff = fabs (fsub v ri)
                   in if rounded_int \<noteq> 0 \<and> flt (fdiv diff ari) (to_double (5 / 100)) then
                        (if feq_int v rounded_int \<or> flt diff (to_double (1 / 100))
                         then Inr (str_int rounded_int)
                         else Inr (''~'' @ str_int rounded_int))
                      else Inr (''~'' @ format_g rounded_1dp))
              | _ \<Rightarrow> Inl (Exception OverflowError))))"

text \<open>The threshold tables; the float literals \<open>1e15\<close> ... \<open>1e3\<close> are exact doubles, and
  the \<open>int\<close> \<open>1\<close> compares as \<open>1.0\<close>.\<close>

definition BYTE_THRESHOLDS :: "(pyfloat \<times> byte_unit \<times> string) list" where
  "BYTE_THRESHOLDS =
     [(Finite (10 ^ 15), Petabyte, ''PB''),
      (Finite (10 ^ 12), Terabyte, ''TB''),
      (Finite (10 ^ 9), Gigabyte, ''GB''),
      (Finite (10 ^ 6), Megabyte, ''MB''),
      (Finite (10 ^ 3), Kilobyte, ''KB''),
      (Finite 1, Byte, ''bytes'')]"

definition NUMBER_THRESHOLDS :: "(pyfloat \<times> string) list" where
  "NUMBER_THRESHOLDS =
     [(Finite (10 ^ 12), ''trillion''),
      (Finite (10 ^ 9), ''billion''),
      (Finite (10 ^ 6), ''million''),
      (Finite (10 ^ 3), ''K'')]"

text \<open>The loop of \<open>_format_number\<close> over the thresholds that are left, and its
  fall-through.\<close>

fun format_number_from :: "(pyfloat \<times> string) list \<Rightarrow> pyfloat \<Rightarrow> string \<Rightarrow> error + string" where
  "format_number_from [] v rate = map_sum id (\<lambda>formatted. formatted @ rate) (format_magnitude v)"
| "format_number_from ((threshold, suffix) # rest) v rate =
     (if fge (fabs v) threshold then
        map_sum id
          (\<lambda>formatted. formatted @ (if length suffix \<le> 1 then [] else '' '') @ suffix @ rate)
          (format_magnitude (fdiv v threshold))
      else format_number_from rest v rate)"

definition format_number :: "pyfloat \<Rightarrow> string \<Rightarrow> error + string" where
  "format_number v rate = format_number_from NUMBER_THRESHOLDS v rate"

section \<open>Unit conversion\<close>

text \<open>
  Modelled from the spec: the unit conversion of the external library pint
  (\<open>Quantity.to(...).magnitude\<close>), whose source is not part of the repository.  The units
  are the byte multiples of 1000 and the time spans of the data model, with the month of
  30 days that the module defines and pint's year of 365.25 days.  A conversion
  multiplies the magnitude by the exact ratio of the two units and rounds once; pint
  itself multiplies by a floating-point factor, which can differ in the last bits.
  Converting a quantity that has a time divisor to plain bytes is pint's
  \<open>DimensionalityError\<close>.
\<close>

fun bytes_per :: "byte_unit \<Rightarrow> rat" where
  "bytes_per Byte = 1"
| "bytes_per Kilobyte = 10 ^ 3"
| "bytes_per Megabyte = 10 ^ 6"
| "bytes_per Gigabyte = 10 ^ 9"
| "bytes_per Terabyte = 10 ^ 12"
| "bytes_per Petabyte = 10 ^ 15"

fun seconds_per :: "time_unit \<Rightarrow> rat" where
  "seconds_per Second = 1"
| "seconds_per Minute = 60"
| "seconds_per Hour = 3600"
| "seconds_per Day = 86400"
| "seconds_per Month = 2592000"
| "seconds_per Year = 31557600"

definition pint_convert :: "pyfloat \<Rightarrow> rat \<Rightarrow> pyfloat" where
  "pint_convert mag factor =
     (if is_nan mag \<or> is_inf mag then mag
      else round_double (is_neg mag) (\<bar>fval mag\<bar> * factor))"

section \<open>The public function\<close>

record result =
  expression :: string
  result_display :: string
  raw_value :: pyfloat

text \<open>The loop over \<open>_BYTE_THRESHOLDS\<close> with its \<open>else\<close> branch, which \<open>evaluate\<close>
  runs on a magnitude in bytes (it occurs twice in the source, with the same body).\<close>

fun byte_display_from ::
  "(pyfloat \<times> byte_unit \<times> string) list \<Rightarrow> pyfloat \<Rightarrow> string \<Rightarrow> error + string" where
  "byte_display_from [] byte_mag rate_label =
     map_sum id (\<lambda>m. m @ '' bytes'' @ rate_label) (format_magnitude byte_mag)"
| "byte_display_from ((threshold, pint_unit, display_label) # rest) byte_mag rate_label =
     (if fge (fabs byte_mag) threshold then
        map_sum id (\<lambda>m. m @ '' '' @ display_label @ rate_label)
          (format_magnitude (pint_convert byte_mag (1 / bytes_per pint_unit)))
      else byte_display_from rest byte_mag rate_label)"

definition byte_display :: "pyfloat \<Rightarrow> string \<Rightarrow> error + string" where
  "byte_display byte_mag rate_label = byte_display_from BYTE_THRESHOLDS byte_mag rate_label"

text \<open>The conversion to an explicit target unit, shared by the byte branch and the
  pure-number branch of \<open>evaluate\<close>.\<close>

definition target_display :: "pyfloat \<Rightarrow> string \<Rightarrow> string \<Rightarrow> error + string" where
  "target_display value_in_bytes target_unit rate_label =
     (case map_of BYTE_UNITS (lower target_unit) of
        None \<Rightarrow> Inl (ValueError (''Unknown target unit: '' @ target_unit))
      | Some pint_target \<Rightarrow>
          map_sum id (\<lambda>m. m @ '' '' @ target_unit @ rate_label)
            (format_magnitude (pint_convert value_in_bytes (1 / bytes_per pint_target))))"

text \<open>The block \<open># Convert and format\<close> of \<open>evaluate\<close>: the display string for a
  magnitude with the units parsed from the expression.\<close>

definition convert_and_format ::
  "pyfloat \<Rightarrow> byte_unit option \<Rightarrow> time_unit option \<Rightarrow> string \<Rightarrow> string \<Rightarrow> error + string" where
  "convert_and_format magnitude data_unit time_unit target_unit rate =
     (let rate_time_unit = map_of RATE_UNITS rate;
          rate_label = (if rate = ''none'' then [] else rate)
      in case (data_unit, time_unit, rate_time_unit) of
           (Some du, Some tu, Some ru) \<Rightarrow>
             byte_display
               (pint_convert magnitude (bytes_per du * seconds_per ru / seconds_per tu))
               rate_label
         | (None, Some tu, Some ru) \<Rightarrow>
             format_number (pint_convert magnitude (seconds_per ru / seconds_per tu)) rate_label
         | (Some du, Some tu, None) \<Rightarrow> Inl (Exception DimensionalityError)
         | (Some du, None, _) \<Rightarrow>
             (let value_in_bytes = pint_convert magnitude (bytes_per du) in
              if target_unit \<noteq> ''auto'' \<and> target_unit \<noteq> ''none''
                then target_display value_in_bytes target_unit rate_label
              else byte_display value_in_bytes rate_label)
         | (None, Some tu, None) \<Rightarrow>
             format_number (pint_convert magnitude (1 / seconds_per tu)) ''/s''
         | (None, None, _) \<Rightarrow>
             (if target_unit \<noteq> ''auto'' \<and> target_unit \<noteq> ''none''
                then target_display magnitude target_unit rate_label
              else format_number magnitude rate_label))"

definition evaluate :: "string \<Rightarrow> string \<Rightarrow> string \<Rightarrow> error + result" where
  "evaluate expr target_unit rate =
     (let processed = preprocess_scale expr;
          (math_str, data_unit, time_unit) = parse_units processed
      in case safe_eval math_str of
           Inl e \<Rightarrow> Inl e
         | Inr magnitude \<Rightarrow>
             (case convert_and_format magnitude data_unit time_unit target_unit rate of
                Inl e \<Rightarrow> Inl e
              | Inr display \<Rightarrow>
                  Inr \<lparr>expression = expr, result_display = display, raw_value = magnitude\<rparr>))"

section \<open>Notions of the specification\<close>

text \<open>The residual arithmetic string of an expression: what is left after scale
  preprocessing and unit stripping, trimmed as \<open>_safe_eval\<close> trims it.\<close>

definition residual :: "string \<Rightarrow> string" where
  "residual expr = strip (fst (parse_units (preprocess_scale expr)))"

text \<open>The specification's \<open>ValidationError\<close>: one of the two \<open>ValueError\<close>s that
  \<open>_safe_eval\<close> raises before it evaluates, told by their messages.\<close>

definition is_validation_error :: "error \<Rightarrow> bool" where
  "is_validation_error e =
     (case e of
        ValueError msg \<Rightarrow>
          msg = ''Empty expression'' \<or> take 34 msg = ''Invalid characters in expression: ''
      | Exception x \<Rightarrow> False)"


section \<open>Evaluation lemmas\<close>

text \<open>Rules that let the simplifier compute the numeric functions on numerals.\<close>

lemma floor_rat_div_numeral [simp]:
  "\<lfloor>numeral a / numeral b :: rat\<rfloor> = numeral a div numeral b"
  using floor_divide_of_int_eq [where ?'a = rat, of "numeral a" "numeral b"] by simp

lemma floor_rat_one_div_numeral [simp]:
  "\<lfloor>1 / numeral b :: rat\<rfloor> = 1 div numeral b"
  using floor_divide_of_int_eq [where ?'a = rat, of 1 "numeral b"] by simp

lemma ceiling_rat_div_numeral [simp]:
  "\<lceil>numeral a / numeral b :: rat\<rceil> = - (- numeral a div numeral b)"
  using floor_divide_of_int_eq [where ?'a = rat, of "- numeral a" "numeral b"]
  by (simp add: ceiling_def)

lemma ceiling_rat_one_div_numeral [simp]:
  "\<lceil>1 / numeral b :: rat\<rceil> = - (- 1 div numeral b)"
  using floor_divide_of_int_eq [where ?'a = rat, of "- 1" "numeral b"]
  by (simp add: ceiling_def)

lemma bit_length_0 [simp]: "bit_length 0 = 0"
  by (simp add: bit_length.simps)

lemma bit_length_1 [simp]: "bit_length 1 = 1"
  by (simp add: bit_length.simps)

lemma bit_length_numeral [simp]:
  "bit_length (numeral k) = Suc (bit_length (numeral k div 2))"
  by (subst bit_length.simps) simp

lemma dec_length_0 [simp]: "dec_length 0 = 0"
  by (simp add: dec_length.simps)

lemma dec_length_1 [simp]: "dec_length 1 = 1"
  by (simp add: dec_length.simps)

lemma dec_length_numeral [simp]:
  "dec_length (numeral k) = Suc (dec_length (numeral k div 10))"
  by (subst dec_length.simps) simp

lemma digits10_0 [simp]: "digits10 0 = ''0''"
  by (simp add: digits10.simps digit_char_def)

lemma digits10_1 [simp]: "digits10 1 = ''1''"
  by (simp add: digits10.simps digit_char_def)

lemma digits10_numeral [simp]:
  "digits10 (numeral k) =
     (if numeral k < (10 :: int) then [digit_char (numeral k)]
      else digits10 (numeral k div 10) @ [digit_char (numeral k mod 10)])"
  by (subst digits10.simps) simp

lemmas str_defs =
  is_digit_def is_space_def is_upper_def is_lower_def is_alpha_def upper_chars_def
  lower_chars_def lower_char_def lower_def
  lstrip_def rstrip_def strip_def rstrip_chars_def split_def

lemmas re_defs =
  match_number_def match_word_def match_suffix_def match_time_divisor_def
  WORD_MULTIPLIERS_def SUFFIX_MULTIPLIERS_def BYTE_UNITS_def TIME_UNITS_def RATE_UNITS_def
  sub_words_def sub_suffixes_def preprocess_scale_def parse_units_def

lemmas num_defs =
  to_double_def round_double_def floor_log2_def pow2_def round_half_even_def Let_def
  is_nan_def is_inf_def is_zero_def signed_inf_def fadd_def fsub_def fmul_def fdiv_def
  flt_def feq_def fge_def feq_int_def float_of_int_def int_true_div_def

lemmas py_defs =
  lex_step_def lex_number_def lex_exponent_def digits_value_def digit_value_def pow10_def
  is_name_char_def term_op_def sum_op_def py_parse_def py_unary_def int_binop_def
  float_binop_def as_float_def py_binop_def py_eval_def py_float_def is_safe_char_def
  safe_eval_def

lemmas fmt_defs =
  digit_char_def pow10_def str_int_def py_round_def round_1dp_def floor_log10_def format_g_def format_magnitude_def
  BYTE_THRESHOLDS_def NUMBER_THRESHOLDS_def format_number_def pint_convert_def
  byte_display_def target_display_def convert_and_format_def

section \<open>Errors of the formatting stage\<close>

lemma map_sum_id_eq_Inl [simp]: "map_sum id f x = Inl e \<longleftrightarrow> x = Inl e"
  by (cases x) simp_all

lemma format_magnitude_error:
  "format_magnitude v = Inl e \<Longrightarrow> \<not> is_validation_error e"
  by (auto simp: format_magnitude_def py_round_def is_validation_error_def Let_def
      split: if_splits sum.splits)

lemma format_number_from_error:
  "format_number_from ths v r = Inl e \<Longrightarrow> \<not> is_validation_error e"
  by (induction ths v r rule: format_number_from.induct)
     (auto dest: format_magnitude_error split: if_splits)

lemma byte_display_from_error:
  "byte_display_from ths v r = Inl e \<Longrightarrow> \<not> is_validation_error e"
  by (induction ths v r rule: byte_display_from.induct)
     (auto dest: format_magnitude_error split: if_splits)

lemma target_display_error:
  "target_display v t r = Inl e \<Longrightarrow> \<not> is_validation_error e"
  by (auto simp: target_display_def is_validation_error_def dest: format_magnitude_error
      split: option.splits)

lemma convert_and_format_error:
  "convert_and_format v du tu t r = Inl e \<Longrightarrow> \<not> is_validation_error e"
  by (auto simp: convert_and_format_def Let_def format_number_def byte_display_def
        is_validation_error_def
      dest: format_number_from_error byte_display_from_error target_display_error
      split: option.splits if_splits)

section \<open>The pipeline on the expressions of the claims\<close>

lemma pre_30_billion:
  "preprocess_scale ''30 billion * 500 bytes'' = ''30 * 1e9 * 500 bytes''"
  by code_simp

lemma units_30_billion:
  "parse_units ''30 * 1e9 * 500 bytes'' = (''30 * 1e9 * 500'', Some Byte, None)"
  by code_simp

lemma safe_eval_30_billion: "safe_eval ''30 * 1e9 * 500'' = Inr (Finite 15000000000000)"
  by (simp add: str_defs py_defs num_defs)

lemma display_15_TB:
  "convert_and_format (Finite 15000000000000) (Some Byte) None ''auto'' ''none'' = Inr ''15 TB''"
  by (simp add: str_defs re_defs fmt_defs num_defs)

lemma pre_10_slash: "preprocess_scale ''10 /'' = ''10 /''"
  by code_simp

lemma units_10_slash: "parse_units ''10 /'' = (''10 /'', None, None)"
  by code_simp

lemma safe_eval_10_slash: "safe_eval ''10 /'' = Inl (Exception SyntaxError)"
  by (simp add: str_defs py_defs num_defs)

lemma evaluate_10_slash: "evaluate ''10 /'' t r = Inl (Exception SyntaxError)"
  by (simp add: evaluate_def pre_10_slash units_10_slash safe_eval_10_slash)

lemma residual_10_slash: "residual ''10 /'' = ''10 /''"
  by (simp add: residual_def pre_10_slash units_10_slash) (simp add: str_defs)

lemma residual_abc: "residual ''abc'' = ''abc''"
  by code_simp

lemma pre_1000_bytes: "preprocess_scale ''1000 bytes'' = ''1000 bytes''"
  by code_simp

lemma units_1000_bytes: "parse_units ''1000 bytes'' = (''1000'', Some Byte, None)"
  by code_simp

lemma safe_eval_1000: "safe_eval ''1000'' = Inr (Finite 1000)"
  by (simp add: str_defs py_defs num_defs)

lemma pre_0_bytes: "preprocess_scale ''0 bytes'' = ''0 bytes''"
  by code_simp

lemma units_0_bytes: "parse_units ''0 bytes'' = (''0'', Some Byte, None)"
  by code_simp

lemma safe_eval_0: "safe_eval ''0'' = Inr (Finite 0)"
  by (simp add: str_defs py_defs num_defs)

lemma pre_minus_5000_bytes: "preprocess_scale ''-5000 bytes'' = ''-5000 bytes''"
  by code_simp

lemma units_minus_5000_bytes: "parse_units ''-5000 bytes'' = (''-5000'', Some Byte, None)"
  by code_simp

lemma safe_eval_minus_5000: "safe_eval ''-5000'' = Inr (Finite (- 5000))"
  by (simp add: str_defs py_defs num_defs)














lemma pre_5_MB: "preprocess_scale ''5 MB'' = ''5 MB''"
  by code_simp

lemma units_5_MB: "parse_units ''5 MB'' = (''5'', Some Megabyte, None)"
  by code_simp

lemma safe_eval_5: "safe_eval ''5'' = Inr (Finite 5)"
  by (simp add: str_defs py_defs num_defs)

lemma display_5_MB:
  "convert_and_format (Finite 5) (Some Megabyte) None ''auto'' ''none'' = Inr ''5 MB''"
  by (simp add: str_defs re_defs fmt_defs num_defs)

lemma evaluate_5_MB:
  "evaluate ''5 MB'' ''auto'' ''none''
     = Inr \<lparr>expression = ''5 MB'', result_display = ''5 MB'', raw_value = Finite 5\<rparr>"
  by (simp add: evaluate_def pre_5_MB units_5_MB safe_eval_5 display_5_MB)

lemma safe_chars_2_pow_10: "list_all is_safe_char ''2**10''"
  by (simp add: str_defs py_defs)

lemma parse_2_pow_10:
  "py_parse ''2**10'' = Some (BinOp (Const (PyInt 2)) Pow (Const (PyInt 10)))"
  by (simp add: str_defs py_defs)

lemma safe_eval_2_pow_10: "safe_eval ''2**10'' = Inr (Finite 1024)"
  by (simp add: str_defs py_defs num_defs)







lemma pre_5_million: "preprocess_scale ''5 million'' = ''5 * 1e6''"
  by code_simp

lemma units_5_million: "parse_units ''5 * 1e6'' = (''5 * 1e6'', None, None)"
  by code_simp

lemma safe_eval_5_million: "safe_eval ''5 * 1e6'' = Inr (Finite 5000000)"
  by (simp add: str_defs py_defs num_defs)

lemma display_5_million:
  "convert_and_format (Finite 5000000) None None ''auto'' ''none'' = Inr ''5 million''"
  by (simp add: str_defs re_defs fmt_defs num_defs)

lemma display_5000_KB_per_day:
  "convert_and_format (Finite 5000000) None None ''KB'' ''/day'' = Inr ''5000 KB/day''"
  by (simp add: str_defs re_defs fmt_defs num_defs)

lemma format_magnitude_half: "format_magnitude (Finite (1 / 2)) = Inr ''~0.5''"
  by (simp add: str_defs fmt_defs num_defs)

lemma display_1_KB_auto:
  "convert_and_format (Finite 1000) (Some Byte) None ''auto'' ''none'' = Inr ''1 KB''"
  by (simp add: str_defs re_defs fmt_defs num_defs)

lemma display_1_KB_none:
  "convert_and_format (Finite 1000) (Some Byte) None ''none'' ''none'' = Inr ''1 KB''"
  by (simp add: str_defs re_defs fmt_defs num_defs)

lemma display_0_bytes:
  "convert_and_format (Finite 0) (Some Byte) None ''auto'' ''none'' = Inr ''0 bytes''"
  by (simp add: str_defs re_defs fmt_defs num_defs)

lemma display_minus_5_KB:
  "convert_and_format (Finite (- 5000)) (Some Byte) None ''auto'' ''none'' = Inr ''-5 KB''"
  by (simp add: str_defs re_defs fmt_defs num_defs)

section \<open>Structure of the display paths\<close>

lemma map_sum_eta_id: "map_sum (\<lambda>a. a) g = map_sum id g"
  by (simp add: id_def)

lemma map_sum_id_twice: "map_sum id g (map_sum id f x) = map_sum id (\<lambda>m. g (f m)) x"
  by (cases x) simp_all

lemma byte_display_from_label:
  "byte_display_from ths v rl = map_sum id (\<lambda>d. d @ rl) (byte_display_from ths v [])"
  by (induction ths v rl rule: byte_display_from.induct)
     (simp_all add: map_sum_eta_id map_sum_id_twice)

lemma target_display_label:
  "target_display v t rl = map_sum id (\<lambda>d. d @ rl) (target_display v t [])"
  by (simp add: target_display_def map_sum_eta_id map_sum_id_twice split: option.splits)

lemma byte_display_from_find:
  "byte_display_from ths v rl =
     (case find (\<lambda>(th, u, l). fge (fabs v) th) ths of
        Some (th, u, l) \<Rightarrow>
          map_sum id (\<lambda>m. m @ '' '' @ l @ rl)
            (format_magnitude (pint_convert v (1 / bytes_per u)))
      | None \<Rightarrow> map_sum id (\<lambda>m. m @ '' bytes'' @ rl) (format_magnitude v))"
  by (induction ths v rl rule: byte_display_from.induct) simp_all

lemma below_one_no_threshold:
  assumes "flt (fabs v) (Finite 1)"
  shows "find (\<lambda>(th, u, l). fge (fabs v) th) BYTE_THRESHOLDS = None"
  using assms
  by (cases v) (simp_all add: BYTE_THRESHOLDS_def fge_def flt_def feq_def is_nan_def)

section \<open>The suffix patterns\<close>








section \<open>The claims\<close>

text \<open>
  Claim C1.  The call \<open>evaluate("30 billion * 500 bytes")\<close> with the default target unit
  \<open>"auto"\<close> and rate \<open>"none"\<close> returns the raw value \<open>1.5e13\<close> and the display
  \<open>"15 TB"\<close>; the first byte threshold that the magnitude reaches is the terabyte.
\<close>

theorem evaluate_30_billion_times_500_bytes:
  "evaluate ''30 billion * 500 bytes'' ''auto'' ''none''
     = Inr \<lparr>expression = ''30 billion * 500 bytes'', result_display = ''15 TB'',
            raw_value = Finite 15000000000000\<rparr>
   \<and> find (\<lambda>(th, u, l). fge (fabs (Finite 15000000000000)) th) BYTE_THRESHOLDS
     = Some (Finite (10 ^ 12), Terabyte, ''TB'')"
proof
  show "evaluate ''30 billion * 500 bytes'' ''auto'' ''none''
     = Inr \<lparr>expression = ''30 billion * 500 bytes'', result_display = ''15 TB'',
            raw_value = Finite 15000000000000\<rparr>"
    by (simp add: evaluate_def pre_30_billion units_30_billion safe_eval_30_billion
        display_15_TB)
  show "find (\<lambda>(th, u, l). fge (fabs (Finite 15000000000000)) th) BYTE_THRESHOLDS
     = Some (Finite (10 ^ 12), Terabyte, ''TB'')"
    by (simp add: BYTE_THRESHOLDS_def fge_def flt_def feq_def is_nan_def)
qed

text \<open>
  Claim C2, as amended.  \<open>evaluate\<close> raises a validation error (one of the two
  \<open>ValueError\<close>s of \<open>_safe_eval\<close>) exactly when the residual arithmetic string is
  empty after trimming or contains a character outside the safe set.  The expression
  \<open>"10 /"\<close> is not such a case: its residual \<open>"10 /"\<close> passes the validation, and the
  evaluator fails on it with a \<open>SyntaxError\<close>.
\<close>

theorem validation_error_iff_residual_rejected:
  "((\<exists>e. evaluate x t r = Inl e \<and> is_validation_error e) \<longleftrightarrow>
      (residual x = [] \<or> \<not> list_all is_safe_char (residual x)))
   \<and> residual ''10 /'' = ''10 /''
   \<and> list_all is_safe_char ''10 /''
   \<and> evaluate ''10 /'' t r = Inl (Exception SyntaxError)"
proof -
  obtain m du tu where pu: "parse_units (preprocess_scale x) = (m, du, tu)"
    by (cases "parse_units (preprocess_scale x)") auto
  have res: "residual x = strip m"
    by (simp add: residual_def pu)
  have "(\<exists>e. evaluate x t r = Inl e \<and> is_validation_error e) \<longleftrightarrow>
      (residual x = [] \<or> \<not> list_all is_safe_char (residual x))"
  proof (cases "strip m = [] \<or> \<not> list_all is_safe_char (strip m)")
    case True
    then have "\<exists>e. safe_eval m = Inl e \<and> is_validation_error e"
      by (auto simp: safe_eval_def Let_def is_validation_error_def)
    with True show ?thesis
      by (auto simp: evaluate_def pu res)
  next
    case False
    have ok: "\<not> is_validation_error e" if "safe_eval m = Inl e" for e
      using that False
      by (auto simp: safe_eval_def Let_def is_validation_error_def split: sum.splits)
    have "\<not> is_validation_error e" if "evaluate x t r = Inl e" for e
      using that ok
      by (auto simp: evaluate_def pu dest: convert_and_format_error split: sum.splits)
    with False show ?thesis
      by (auto simp: res)
  qed
  moreover have "list_all is_safe_char ''10 /''"
    by (simp add: str_defs py_defs)
  ultimately show ?thesis
    by (simp add: residual_10_slash evaluate_10_slash)
qed

theorem validation_error_iff_witness:
  "residual ''abc'' = ''abc'' \<and> \<not> list_all is_safe_char ''abc''
   \<and> (\<exists>e. evaluate ''abc'' ''auto'' ''none'' = Inl e \<and> is_validation_error e)"
proof -
  have unsafe: "\<not> list_all is_safe_char ''abc''"
    by (simp add: str_defs py_defs)
  with validation_error_iff_residual_rejected [of "''abc''" "''auto''" "''none''"]
  show ?thesis
    by (simp add: residual_abc)
qed

theorem ten_slash_is_no_validation_error:
  "evaluate ''10 /'' ''auto'' ''none'' = Inl (Exception SyntaxError)
   \<and> \<not> is_validation_error (Exception SyntaxError)"
  by (simp add: evaluate_10_slash is_validation_error_def)

text \<open>
  Claim C3, as amended.  In byte auto-selection the threshold table is strictly descending
  and the first threshold that the absolute value of the magnitude reaches wins; exactly
  1000 bytes select the kilobyte and display \<open>"1 KB"\<close>; a magnitude whose absolute
  value is below 1 (0 among them) reaches no threshold and is formatted in the
  \<open>"bytes"\<close> branch without conversion, so 0 bytes display \<open>"0 bytes"\<close>.
\<close>

theorem byte_auto_selection:
  "sorted_wrt (\<lambda>a b. flt b a) (map fst BYTE_THRESHOLDS)
   \<and> byte_display v rl =
       (case find (\<lambda>(th, u, l). fge (fabs v) th) BYTE_THRESHOLDS of
          Some (th, u, l) \<Rightarrow>
            map_sum id (\<lambda>m. m @ '' '' @ l @ rl)
              (format_magnitude (pint_convert v (1 / bytes_per u)))
        | None \<Rightarrow> map_sum id (\<lambda>m. m @ '' bytes'' @ rl) (format_magnitude v))
   \<and> evaluate ''1000 bytes'' ''auto'' ''none''
       = Inr \<lparr>expression = ''1000 bytes'', result_display = ''1 KB'',
              raw_value = Finite 1000\<rparr>
   \<and> evaluate ''1000 bytes'' ''none'' ''none''
       = Inr \<lparr>expression = ''1000 bytes'', result_display = ''1 KB'',
              raw_value = Finite 1000\<rparr>
   \<and> (flt (fabs v) (Finite 1) \<longrightarrow>
        byte_display v rl = map_sum id (\<lambda>m. m @ '' bytes'' @ rl) (format_magnitude v))
   \<and> evaluate ''0 bytes'' ''auto'' ''none''
       = Inr \<lparr>expression = ''0 bytes'', result_display = ''0 bytes'',
              raw_value = Finite 0\<rparr>"
proof -
  have desc: "sorted_wrt (\<lambda>a b. flt b a) (map fst BYTE_THRESHOLDS)"
    by (simp add: BYTE_THRESHOLDS_def flt_def is_nan_def)
  have first: "byte_display v rl =
       (case find (\<lambda>(th, u, l). fge (fabs v) th) BYTE_THRESHOLDS of
          Some (th, u, l) \<Rightarrow>
            map_sum id (\<lambda>m. m @ '' '' @ l @ rl)
              (format_magnitude (pint_convert v (1 / bytes_per u)))
        | None \<Rightarrow> map_sum id (\<lambda>m. m @ '' bytes'' @ rl) (format_magnitude v))"
    unfolding byte_display_def by (rule byte_display_from_find)
  have kb: "evaluate ''1000 bytes'' t ''none''
       = Inr \<lparr>expression = ''1000 bytes'', result_display = ''1 KB'',
              raw_value = Finite 1000\<rparr>" if "t = ''auto'' \<or> t = ''none''" for t
    using that display_1_KB_auto display_1_KB_none
    by (auto simp: evaluate_def pre_1000_bytes units_1000_bytes safe_eval_1000)
  have zero: "evaluate ''0 bytes'' ''auto'' ''none''
       = Inr \<lparr>expression = ''0 bytes'', result_display = ''0 bytes'',
              raw_value = Finite 0\<rparr>"
    by (simp add: evaluate_def pre_0_bytes units_0_bytes safe_eval_0 display_0_bytes)
  have below: "flt (fabs v) (Finite 1) \<longrightarrow>
        byte_display v rl = map_sum id (\<lambda>m. m @ '' bytes'' @ rl) (format_magnitude v)"
    by (simp add: first below_one_no_threshold)
  from desc first kb zero below show ?thesis
    by simp
qed

theorem byte_auto_selection_witness:
  "flt (fabs (Finite (1 / 2))) (Finite 1)
   \<and> byte_display (Finite (1 / 2)) [] = Inr ''~0.5 bytes''"
proof -
  have small: "flt (fabs (Finite (1 / 2))) (Finite 1)"
    by (simp add: flt_def is_nan_def)
  with byte_auto_selection [of "Finite (1 / 2)" "[]"]
  have "byte_display (Finite (1 / 2)) []
          = map_sum id (\<lambda>m. m @ '' bytes'' @ []) (format_magnitude (Finite (1 / 2)))"
    by blast
  with small show ?thesis
    by (simp add: format_magnitude_half)
qed

theorem negative_magnitude_reaches_a_threshold:
  "flt (Finite (- 5000)) (Finite 1)
   \<and> evaluate ''-5000 bytes'' ''auto'' ''none''
       = Inr \<lparr>expression = ''-5000 bytes'', result_display = ''-5 KB'',
              raw_value = Finite (- 5000)\<rparr>"
  by (simp add: evaluate_def pre_minus_5000_bytes units_minus_5000_bytes
      safe_eval_minus_5000 display_minus_5_KB flt_def is_nan_def)










text \<open>
  Claim C8.  The \<open>expression\<close> field of a successful call is the input expression itself,
  not its preprocessed form, and the raw value does not depend on the target unit and
  the rate: two successful calls on the same expression agree on both fields.
\<close>

theorem expression_and_raw_value_independent:
  "evaluate x t1 r1 = Inr a \<Longrightarrow> evaluate x t2 r2 = Inr b
   \<Longrightarrow> expression a = x \<and> expression b = x \<and> raw_value a = raw_value b"
  by (cases "parse_units (preprocess_scale x)")
     (auto simp: evaluate_def split: sum.splits)

theorem expression_and_raw_value_independent_witness:
  "evaluate ''5 million'' ''auto'' ''none''
     = Inr \<lparr>expression = ''5 million'', result_display = ''5 million'',
            raw_value = Finite 5000000\<rparr>
   \<and> evaluate ''5 million'' ''KB'' ''/day''
     = Inr \<lparr>expression = ''5 million'', result_display = ''5000 KB/day'',
            raw_value = Finite 5000000\<rparr>
   \<and> preprocess_scale ''5 million'' = ''5 * 1e6''"
proof -
  have a: "evaluate ''5 million'' ''auto'' ''none''
     = Inr \<lparr>expression = ''5 million'', result_display = ''5 million'',
            raw_value = Finite 5000000\<rparr>"
    by (simp add: evaluate_def pre_5_million units_5_million safe_eval_5_million
        display_5_million)
  have "\<exists>d. evaluate ''5 million'' ''KB'' ''/day''
     = Inr \<lparr>expression = ''5 million'', result_display = d, raw_value = Finite 5000000\<rparr>
     \<and> d = ''5000 KB/day''"
    by (simp add: evaluate_def pre_5_million units_5_million safe_eval_5_million
        display_5000_KB_per_day)
  then obtain b where b: "evaluate ''5 million'' ''KB'' ''/day'' = Inr b"
    and d: "result_display b = ''5000 KB/day''"
    by auto
  from expression_and_raw_value_independent [OF a b]
  have "expression b = ''5 million'' \<and> raw_value b = Finite 5000000"
    by simp
  with d have "b = \<lparr>expression = ''5 million'', result_display = ''5000 KB/day'',
            raw_value = Finite 5000000\<rparr>"
    by (cases b) simp
  with a b show ?thesis
    by (simp add: pre_5_million)
qed

text \<open>
  Claim C9.  When the expression carries a data unit but no time divisor and the rate is
  not \<open>"none"\<close>, no time conversion happens: the call behaves as with the rate
  \<open>"none"\<close>, except that the rate string is appended to the display;
  \<open>evaluate("5 MB", rate="/s")\<close> displays \<open>"5 MB/s"\<close>.
\<close>

theorem rate_is_a_label_without_time_divisor:
  "(parse_units (preprocess_scale x) = (m, Some du, None) \<and> r \<noteq> ''none''
     \<longrightarrow> evaluate x t r =
          map_sum id (\<lambda>res. res\<lparr>result_display := result_display res @ r\<rparr>)
            (evaluate x t ''none''))
   \<and> evaluate ''5 MB'' ''auto'' ''/s''
       = Inr \<lparr>expression = ''5 MB'', result_display = ''5 MB/s'', raw_value = Finite 5\<rparr>"
proof -
  have gen: "evaluate x t r =
          map_sum id (\<lambda>res. res\<lparr>result_display := result_display res @ r\<rparr>)
            (evaluate x t ''none'')"
    if pu: "parse_units (preprocess_scale x) = (m, Some du, None)" and r: "r \<noteq> ''none''"
    for x m du t r
  proof (cases "safe_eval m")
    case (Inl e)
    with pu show ?thesis
      by (simp add: evaluate_def)
  next
    case (Inr mag)
    have "convert_and_format mag (Some du) None t r
            = map_sum id (\<lambda>d. d @ r) (convert_and_format mag (Some du) None t ''none'')"
      using r
      by (simp add: convert_and_format_def Let_def byte_display_def
          byte_display_from_label [of _ _ r] target_display_label [of _ _ r]
          split: option.splits)
    with pu Inr show ?thesis
      by (cases "convert_and_format mag (Some du) None t ''none''")
         (simp_all add: evaluate_def)
  qed
  have "evaluate ''5 MB'' ''auto'' ''/s''
       = Inr \<lparr>expression = ''5 MB'', result_display = ''5 MB/s'', raw_value = Finite 5\<rparr>"
    by (subst gen [where m = "''5''" and du = Megabyte])
       (simp_all add: pre_5_MB units_5_MB evaluate_5_MB)
  with gen show ?thesis
    by blast
qed

theorem rate_is_a_label_witness:
  "parse_units (preprocess_scale ''5 MB'') = (''5'', Some Megabyte, None)
   \<and> ''/hour'' \<noteq> ''none''
   \<and> evaluate ''5 MB'' ''auto'' ''/hour''
       = Inr \<lparr>expression = ''5 MB'', result_display = ''5 MB/hour'', raw_value = Finite 5\<rparr>"
  using rate_is_a_label_without_time_divisor
    [of "''5 MB''" "''5''" Megabyte "''/hour''" "''auto''"]
  by (simp add: pre_5_MB units_5_MB evaluate_5_MB)

text \<open>
  Claim C10.  The character whitelist admits operators beyond the single characters
  \<open>+ - * / ( )\<close>: the text \<open>"2**10"\<close> consists of safe characters only, parses as an
  exponentiation and evaluates to \<open>1024.0\<close>.
\<close>

theorem whitelist_admits_exponentiation:
  "list_all is_safe_char ''2**10''
   \<and> py_parse ''2**10'' = Some (BinOp (Const (PyInt 2)) Pow (Const (PyInt 10)))
   \<and> safe_eval ''2**10'' = Inr (Finite 1024)"
  by (intro conjI safe_chars_2_pow_10 parse_2_pow_10 safe_eval_2_pow_10)

end
